theory Spec2Isabelle
  imports Main "HOL-Library.Sublist"
begin

section \<open>The Pokemon record service (src/pokemon\_server/server.py)\<close>

text \<open>
  The module holds one dictionary, \<open>POKEMON_DATA\<close>, and four request handlers. The
  handlers that look a record up are embedded here: \<open>list_resources\<close>,
  \<open>read_resource\<close> and \<open>call_tool\<close>.

  Conventions of the embedding.
  \<^item> A Python \<open>str\<close> is a \<open>string\<close>; a \<open>char\<close> stands for one code point below 256
    (so \<open>CHR 0xE9\<close> is the accented e of the record's description). Code points from 256
    on are outside the model.
  \<^item> Python values built from \<open>None\<close>, booleans, integers, strings, lists and
    dictionaries with string keys are the datatype \<open>json\<close>; a dictionary is an association
    list in insertion order, its keys distinct.
  \<^item> Every \<open>raise\<close> is a value \<open>Inl e\<close> of the result type \<open>error + 'a\<close>.
  \<^item> \<open>read_resource\<close> receives a \<open>pydantic.AnyUrl\<close> and immediately takes \<open>str(uri)\<close>; the
    embedding takes that string as the argument. \<open>list_resources\<close> keeps, as the \<open>uri\<close> of
    a descriptor, the string handed to \<open>AnyUrl\<close>.
\<close>

subsection \<open>Values and errors\<close>

datatype json =
    JNull
  | JBool bool
  | JInt int
  | JStr string
  | JList "json list"
  | JObj "(string \<times> json) list"

datatype error =
    ValueError string
  | KeyError string
  | TypeError
  | AttributeError
  | ValidationError

record Resource =
  uri :: string
  name :: string
  mimeType :: string
  description :: string

record TextContent =
  type :: string
  "text" :: string

subsection \<open>The string operations of Python that the handlers use\<close>

text \<open>\<open>sep.join(xs)\<close>.\<close>

fun join :: "string \<Rightarrow> string list \<Rightarrow> string" where
  "join sep [] = []"
| "join sep [x] = x"
| "join sep (x # y # ys) = x @ sep @ join sep (y # ys)"

text \<open>
  \<open>str.lower()\<close> on code points below 256: the capital letters are \<open>A\<close> to \<open>Z\<close> and
  \<open>0xC0\<close> to \<open>0xDE\<close> without the multiplication sign \<open>0xD7\<close>; each has its small letter
  32 places further on. Every other code point below 256 is its own lower case.
\<close>

definition is_capital :: "nat \<Rightarrow> bool" where
  "is_capital n \<longleftrightarrow> (65 \<le> n \<and> n \<le> 90) \<or> (192 \<le> n \<and> n \<le> 222 \<and> n \<noteq> 215)"

definition lower_char :: "char \<Rightarrow> char" where
  "lower_char c = (if is_capital (of_char c) then char_of (of_char c + (32::nat)) else c)"

definition lower :: "string \<Rightarrow> string" where
  "lower s = map lower_char s"

text \<open>
  \<open>s.replace(old, new)\<close>: the occurrences of \<open>old\<close> are found from the left, without
  overlap. With an empty \<open>old\<close>, Python puts \<open>new\<close> before every character and at the end.
\<close>

function replace_scan :: "string \<Rightarrow> string \<Rightarrow> string \<Rightarrow> string" where
  "replace_scan [] old new = []"
| "replace_scan (c # cs) old new =
     (if old \<noteq> [] \<and> prefix old (c # cs)
      then new @ replace_scan (drop (length old) (c # cs)) old new
      else c # replace_scan cs old new)"
  by pat_completeness auto
termination
  by (relation "measure (\<lambda>(s, old, new). length s)") auto

definition replace :: "string \<Rightarrow> string \<Rightarrow> string \<Rightarrow> string" where
  "replace s old new =
     (if old = [] then new @ concat (map (\<lambda>c. c # new) s) else replace_scan s old new)"

subsection \<open>\<open>json.dumps(obj, indent=n)\<close>\<close>

text \<open>
  The encoder of the standard library with its defaults (\<open>ensure_ascii=True\<close>): inside
  a string, the quote, the backslash and the control characters with a short name are
  written with a backslash; every other code point outside \<open>' '\<close> .. \<open>'~'\<close> is written
  \<open>\uXXXX\<close> with four small hexadecimal digits.
\<close>

definition hex_digit :: "nat \<Rightarrow> char" where
  "hex_digit d = ''0123456789abcdef'' ! (d mod 16)"

definition escape_char :: "char \<Rightarrow> string" where
  "escape_char c =
     (if c = CHR 0x22 then [CHR 0x5C, CHR 0x22]
      else if c = CHR 0x5C then [CHR 0x5C, CHR 0x5C]
      else if c = CHR 0x0A then [CHR 0x5C, CHR ''n'']
      else if c = CHR 0x0D then [CHR 0x5C, CHR ''r'']
      else if c = CHR 0x09 then [CHR 0x5C, CHR ''t'']
      else if c = CHR 0x08 then [CHR 0x5C, CHR ''b'']
      else if c = CHR 0x0C then [CHR 0x5C, CHR ''f'']
      else if (32::nat) \<le> of_char c \<and> of_char c \<le> (126::nat) then [c]
      else [CHR 0x5C, CHR ''u'', CHR ''0'', CHR ''0'',
            hex_digit (of_char c div 16), hex_digit (of_char c mod 16)])"

definition encode_basestring_ascii :: "string \<Rightarrow> string" where
  "encode_basestring_ascii s = CHR 0x22 # concat (map escape_char s) @ [CHR 0x22]"

text \<open>\<open>str(n)\<close> for an integer: decimal digits, a minus sign in front of a negative number.\<close>

function str_nat :: "nat \<Rightarrow> string" where
  "str_nat n = (if n < 10 then [''0123456789'' ! n] else str_nat (n div 10) @ [''0123456789'' ! (n mod 10)])"
  by pat_completeness auto
termination
  by (relation "measure (\<lambda>n. n)") auto

declare str_nat.simps [simp del]

definition str_int :: "int \<Rightarrow> string" where
  "str_int i = (if i < 0 then CHR ''-'' # str_nat (nat (- i)) else str_nat (nat i))"

text \<open>
  With an indent, a non-empty container opens a line per item, indented by
  \<open>indent * level\<close> spaces; the items are separated by a comma, a key from its value by a
  colon and a space; the closing bracket is on a line of its own at the outer level. An
  empty container is \<open>[]\<close> or \<open>{}\<close>.
\<close>

definition newline_indent :: "nat \<Rightarrow> nat \<Rightarrow> string" where
  "newline_indent indent level = CHR 0x0A # replicate (indent * level) CHR '' ''"

fun iterencode :: "nat \<Rightarrow> nat \<Rightarrow> json \<Rightarrow> string" where
  "iterencode indent level JNull = ''null''"
| "iterencode indent level (JBool b) = (if b then ''true'' else ''false'')"
| "iterencode indent level (JInt i) = str_int i"
| "iterencode indent level (JStr s) = encode_basestring_ascii s"
| "iterencode indent level (JList xs) =
     (if xs = [] then ''[]''
      else ''['' @ newline_indent indent (Suc level)
           @ join ('','' @ newline_indent indent (Suc level))
                  (map (iterencode indent (Suc level)) xs)
           @ newline_indent indent level @ '']'')"
| "iterencode indent level (JObj kvs) =
     (if kvs = [] then ''{}''
      else ''{'' @ newline_indent indent (Suc level)
           @ join ('','' @ newline_indent indent (Suc level))
                  (map (\<lambda>(k, v). encode_basestring_ascii k @ '': ''
                                   @ iterencode indent (Suc level) v) kvs)
           @ newline_indent indent level @ ''}'')"

definition json_dumps :: "json \<Rightarrow> nat \<Rightarrow> string" where
  "json_dumps obj indent = iterencode indent 0 obj"

subsection \<open>Subscripting, membership and \<open>.lower()\<close> on a Python value\<close>

text \<open>
  \<open>d[k]\<close> with a string \<open>k\<close>: a dictionary without the key raises \<open>KeyError(k)\<close>; a value
  that is no dictionary raises \<open>TypeError\<close>.
\<close>

definition getitem :: "json \<Rightarrow> string \<Rightarrow> error + json" where
  "getitem d k =
     (case d of
        JObj kvs \<Rightarrow> (case map_of kvs k of None \<Rightarrow> Inl (KeyError k) | Some v \<Rightarrow> Inr v)
      | _ \<Rightarrow> Inl TypeError)"

text \<open>\<open>v.lower()\<close>: only a string has the method.\<close>

definition lower_method :: "json \<Rightarrow> error + string" where
  "lower_method v = (case v of JStr s \<Rightarrow> Inr (lower s) | _ \<Rightarrow> Inl AttributeError)"

subsection \<open>The data\<close>

definition POKEMON_DATA :: "(string \<times> json) list" where
  "POKEMON_DATA =
     [(''pikachu'', JObj
        [(''name'', JStr ''Pikachu''),
         (''type'', JStr ''Electric''),
         (''description'', JStr (''A Mouse Pok'' @ [CHR 0xE9] @ ''mon. It can generate electric attacks from the electric pouches located in both of its cheeks.'')),
         (''stats'', JObj
            [(''hp'', JInt 35),
             (''attack'', JInt 55),
             (''defense'', JInt 40),
             (''speed'', JInt 90)])])]"

text \<open>\<open>k in POKEMON_DATA\<close> and \<open>POKEMON_DATA[k]\<close>.\<close>

definition contains :: "(string \<times> json) list \<Rightarrow> string \<Rightarrow> bool" where
  "contains d k \<longleftrightarrow> map_of d k \<noteq> None"

subsection \<open>The handlers\<close>

text \<open>
  \<open>list_resources\<close>: the comprehension over \<open>POKEMON_DATA.items()\<close>, one \<open>Resource\<close> per
  item, in the dictionary's order. \<open>data["name"]\<close> can raise; \<open>Resource\<close> accepts only a
  string as \<open>name\<close>.
\<close>

definition make_resource :: "string \<Rightarrow> json \<Rightarrow> error + Resource" where
  "make_resource pokemon_id data =
     (case getitem data ''name'' of
        Inl e \<Rightarrow> Inl e
      | Inr (JStr n) \<Rightarrow>
          Inr \<lparr>uri = ''pokemon://'' @ pokemon_id,
               name = n,
               mimeType = ''application/json'',
               description = ''Information about '' @ n\<rparr>
      | Inr _ \<Rightarrow> Inl ValidationError)"

fun resources_of :: "(string \<times> json) list \<Rightarrow> error + Resource list" where
  "resources_of [] = Inr []"
| "resources_of ((pokemon_id, data) # items) =
     (case make_resource pokemon_id data of
        Inl e \<Rightarrow> Inl e
      | Inr r \<Rightarrow> (case resources_of items of Inl e \<Rightarrow> Inl e | Inr rs \<Rightarrow> Inr (r # rs)))"

definition list_resources :: "error + Resource list" where
  "list_resources = resources_of POKEMON_DATA"

text \<open>\<open>read_resource\<close>; its argument \<open>uri_str\<close> is \<open>str(uri)\<close>.\<close>

definition read_resource :: "string \<Rightarrow> error + string" where
  "read_resource uri_str =
     (let pokemon_id = replace uri_str ''pokemon://'' ''''
      in if \<not> contains POKEMON_DATA pokemon_id
         then Inl (ValueError (''Unknown Pokemon: '' @ pokemon_id))
         else (case map_of POKEMON_DATA pokemon_id of
                 None \<Rightarrow> Inl (KeyError pokemon_id)
               | Some data \<Rightarrow> Inr (json_dumps data 2)))"

text \<open>
  \<open>call_tool\<close>; \<open>tool_name\<close> is the parameter \<open>name\<close> of the source, and \<open>arguments\<close>
  is any Python value.
\<close>

definition call_tool :: "string \<Rightarrow> json \<Rightarrow> error + TextContent list" where
  "call_tool tool_name arguments =
     (if tool_name = ''get_stats'' then
        (case getitem arguments ''pokemon'' of
           Inl e \<Rightarrow> Inl e
         | Inr v \<Rightarrow>
            (case lower_method v of
               Inl e \<Rightarrow> Inl e
             | Inr pokemon_name \<Rightarrow>
                 if \<not> contains POKEMON_DATA pokemon_name
                 then Inr [\<lparr>type = ''text'',
                            text = json_dumps
                              (JObj [(''error'', JStr (''Pokemon '' @ pokemon_name @ '' not found''))]) 2\<rparr>]
                 else (case map_of POKEMON_DATA pokemon_name of
                         None \<Rightarrow> Inl (KeyError pokemon_name)
                       | Some data \<Rightarrow>
                          (case getitem data ''name'' of
                             Inl e \<Rightarrow> Inl e
                           | Inr n \<Rightarrow>
                              (case getitem data ''stats'' of
                                 Inl e \<Rightarrow> Inl e
                               | Inr st \<Rightarrow>
                                   Inr [\<lparr>type = ''text'',
                                         text = json_dumps (JObj [(''name'', n), (''stats'', st)]) 2\<rparr>])))))
      else Inl (ValueError (''Unknown tool: '' @ tool_name)))"

subsection \<open>\<open>json.loads(s)\<close>, the decoder by which a payload is read back\<close>

text \<open>
  The handlers only encode. What a payload "decodes to" is what the standard decoder
  returns on it, so the decoder is modelled too, on the grammar it accepts: white space
  is skipped between tokens, a string ends at the first unescaped quote and may hold no
  raw control character, a later value of a repeated key replaces the earlier one.
  \<open>None\<close> stands for \<open>JSONDecodeError\<close>, and also for the texts whose value is outside
  \<open>json\<close>: a number with a fraction or an exponent, \<open>NaN\<close>, \<open>Infinity\<close>, and a \<open>\uXXXX\<close>
  escape of a code point from 256 on.

  The decoder walks the text with a fuel counter that every call decrements;
  \<open>json_loads\<close> starts with the length of the text.
\<close>

definition is_ws :: "char \<Rightarrow> bool" where
  "is_ws c \<longleftrightarrow> c = CHR '' '' \<or> c = CHR 0x09 \<or> c = CHR 0x0A \<or> c = CHR 0x0D"

definition skip_ws :: "string \<Rightarrow> string" where
  "skip_ws s = dropWhile is_ws s"

definition hex_value :: "char \<Rightarrow> nat option" where
  "hex_value c =
     (let n = of_char c :: nat
      in if 48 \<le> n \<and> n \<le> 57 then Some (n - 48)
         else if 97 \<le> n \<and> n \<le> 102 then Some (n - 87)
         else if 65 \<le> n \<and> n \<le> 70 then Some (n - 55)
         else None)"

fun hex_number :: "string \<Rightarrow> nat option" where
  "hex_number [] = Some 0"
| "hex_number (c # cs) =
     (case hex_value c of
        None \<Rightarrow> None
      | Some d \<Rightarrow> (case hex_number cs of None \<Rightarrow> None | Some n \<Rightarrow> Some (d * 16 ^ length cs + n)))"

definition unescape :: "char \<Rightarrow> char option" where
  "unescape e =
     (if e = CHR 0x22 then Some (CHR 0x22)
      else if e = CHR 0x5C then Some (CHR 0x5C)
      else if e = CHR ''/'' then Some (CHR ''/'')
      else if e = CHR ''b'' then Some (CHR 0x08)
      else if e = CHR ''f'' then Some (CHR 0x0C)
      else if e = CHR ''n'' then Some (CHR 0x0A)
      else if e = CHR ''r'' then Some (CHR 0x0D)
      else if e = CHR ''t'' then Some (CHR 0x09)
      else None)"

definition push_char :: "char \<Rightarrow> (string \<times> string) option \<Rightarrow> (string \<times> string) option" where
  "push_char c r = (case r of None \<Rightarrow> None | Some (s, rest) \<Rightarrow> Some (c # s, rest))"

fun scanstring :: "string \<Rightarrow> (string \<times> string) option" where
  "scanstring [] = None"
| "scanstring (c # cs) =
     (if c = CHR 0x22 then Some ([], cs)
      else if c = CHR 0x5C then
        (case cs of
           [] \<Rightarrow> None
         | e # es \<Rightarrow>
             if e = CHR ''u'' then
               (if length es < 4 then None
                else (case hex_number (take 4 es) of
                        None \<Rightarrow> None
                      | Some n \<Rightarrow> if n < 256 then push_char (char_of n) (scanstring (drop 4 es)) else None))
             else (case unescape e of
                     None \<Rightarrow> None
                   | Some d \<Rightarrow> push_char d (scanstring es)))
      else if of_char c < (32::nat) then None
      else push_char c (scanstring cs))"


definition is_digit :: "char \<Rightarrow> bool" where
  "is_digit c \<longleftrightarrow> (48::nat) \<le> of_char c \<and> of_char c \<le> (57::nat)"

definition dec_number :: "string \<Rightarrow> nat" where
  "dec_number ds = foldl (\<lambda>n d. 10 * n + (of_char d - 48)) 0 ds"

definition float_follows :: "string \<Rightarrow> bool" where
  "float_follows s =
     (case s of
        [] \<Rightarrow> False
      | c # cs \<Rightarrow>
          if c = CHR ''.'' then (case cs of [] \<Rightarrow> False | d # _ \<Rightarrow> is_digit d)
          else if c = CHR ''e'' \<or> c = CHR ''E'' then
            (case cs of
               [] \<Rightarrow> False
             | d # ds \<Rightarrow>
                 if d = CHR ''+'' \<or> d = CHR ''-'' then (case ds of [] \<Rightarrow> False | d' # _ \<Rightarrow> is_digit d')
                 else is_digit d)
          else False)"

definition scan_digits :: "bool \<Rightarrow> string \<Rightarrow> (json \<times> string) option" where
  "scan_digits negative s =
     (case s of
        [] \<Rightarrow> None
      | d # ds \<Rightarrow>
          if \<not> is_digit d then None
          else let digits = (if d = CHR ''0'' then [d] else d # takeWhile is_digit ds);
                   rest = drop (length digits) s
               in if float_follows rest then None
                  else Some (JInt (if negative then - int (dec_number digits) else int (dec_number digits)), rest))"

definition scan_number :: "string \<Rightarrow> (json \<times> string) option" where
  "scan_number s =
     (case s of
        [] \<Rightarrow> None
      | c # cs \<Rightarrow> if c = CHR ''-'' then scan_digits True cs else scan_digits False s)"

fun dict_set :: "(string \<times> json) list \<Rightarrow> string \<Rightarrow> json \<Rightarrow> (string \<times> json) list" where
  "dict_set [] k v = [(k, v)]"
| "dict_set ((k', v') # kvs) k v = (if k' = k then (k, v) # kvs else (k', v') # dict_set kvs k v)"

fun scan_once :: "nat \<Rightarrow> string \<Rightarrow> (json \<times> string) option"
  and scan_members :: "nat \<Rightarrow> (string \<times> json) list \<Rightarrow> string \<Rightarrow> (json \<times> string) option"
  and scan_elements :: "nat \<Rightarrow> json list \<Rightarrow> string \<Rightarrow> (json \<times> string) option"
where
  "scan_once 0 s = None"
| "scan_once (Suc fuel) s =
     (case s of
        [] \<Rightarrow> None
      | c # cs \<Rightarrow>
          if c = CHR 0x22 then
            (case scanstring cs of None \<Rightarrow> None | Some (str, rest) \<Rightarrow> Some (JStr str, rest))
          else if c = CHR ''{'' then
            (case skip_ws cs of
               [] \<Rightarrow> None
             | d # ds \<Rightarrow> if d = CHR ''}'' then Some (JObj [], ds) else scan_members fuel [] (d # ds))
          else if c = CHR ''['' then
            (case skip_ws cs of
               [] \<Rightarrow> None
             | d # ds \<Rightarrow> if d = CHR '']'' then Some (JList [], ds) else scan_elements fuel [] (d # ds))
          else if prefix ''null'' s then Some (JNull, drop 4 s)
          else if prefix ''true'' s then Some (JBool True, drop 4 s)
          else if prefix ''false'' s then Some (JBool False, drop 5 s)
          else scan_number s)"
| "scan_members 0 pairs s = None"
| "scan_members (Suc fuel) pairs s =
     (case s of
        [] \<Rightarrow> None
      | q # cs \<Rightarrow>
          if q \<noteq> CHR 0x22 then None
          else
            (case scanstring cs of
               None \<Rightarrow> None
             | Some (key, rest) \<Rightarrow>
                 (case skip_ws rest of
                    [] \<Rightarrow> None
                  | colon # rest' \<Rightarrow>
                      if colon \<noteq> CHR '':'' then None
                      else
                        (case scan_once fuel (skip_ws rest') of
                           None \<Rightarrow> None
                         | Some (v, rest'') \<Rightarrow>
                             (case skip_ws rest'' of
                                [] \<Rightarrow> None
                              | d # ds \<Rightarrow>
                                  if d = CHR ''}'' then Some (JObj (dict_set pairs key v), ds)
                                  else if d = CHR '','' then scan_members fuel (dict_set pairs key v) (skip_ws ds)
                                  else None)))))"
| "scan_elements 0 vals s = None"
| "scan_elements (Suc fuel) vals s =
     (case scan_once fuel s of
        None \<Rightarrow> None
      | Some (v, rest) \<Rightarrow>
          (case skip_ws rest of
             [] \<Rightarrow> None
           | d # ds \<Rightarrow>
               if d = CHR '']'' then Some (JList (vals @ [v]), ds)
               else if d = CHR '','' then scan_elements fuel (vals @ [v]) (skip_ws ds)
               else None))"

definition json_loads :: "string \<Rightarrow> json option" where
  "json_loads s =
     (case scan_once (length s) (skip_ws s) of
        None \<Rightarrow> None
      | Some (v, rest) \<Rightarrow> if skip_ws rest = [] then Some v else None)"

subsection \<open>Strings that are equal up to letter case\<close>

text \<open>
  Two code points are the same letter in either case when they are equal or one is a
  capital letter and the other its small letter; two strings are equal up to letter case
  when they agree in this sense position by position.
\<close>

definition case_pair :: "char \<Rightarrow> char \<Rightarrow> bool" where
  "case_pair u l \<longleftrightarrow> is_capital (of_char u) \<and> (of_char l :: nat) = of_char u + 32"

definition same_letter :: "char \<Rightarrow> char \<Rightarrow> bool" where
  "same_letter c d \<longleftrightarrow> c = d \<or> case_pair c d \<or> case_pair d c"

definition equal_up_to_case :: "string \<Rightarrow> string \<Rightarrow> bool" where
  "equal_up_to_case s t \<longleftrightarrow> list_all2 same_letter s t"

section \<open>Properties of the string operations and of the data\<close>

text \<open>The dictionary has the single key \<open>pikachu\<close>.\<close>

lemma contains_POKEMON_DATA: "contains POKEMON_DATA k \<longleftrightarrow> k = ''pikachu''"
  by (simp add: contains_def POKEMON_DATA_def)

text \<open>
  \<open>replace\<close>: a string without an occurrence of \<open>old\<close> is returned as it is; an occurrence
  at the front is replaced and the scan goes on behind it. When the first character of
  \<open>old\<close> does not come back inside \<open>old\<close>, no occurrence can overlap another one, and an
  occurrence anywhere in the string is replaced.
\<close>

lemma replace_scan_no_occurrence:
  "\<not> sublist old s \<Longrightarrow> replace_scan s old new = s"
proof (induction s)
  case Nil
  show ?case by simp
next
  case (Cons c cs)
  from Cons.prems have np: "\<not> prefix old (c # cs)" and ns: "\<not> sublist old cs"
    by (simp_all add: sublist_Cons_right)
  from ns have "replace_scan cs old new = cs" by (rule Cons.IH)
  with np show ?case by simp
qed


lemma replace_scan_at_occurrence:
  "old \<noteq> [] \<Longrightarrow> replace_scan (old @ s) old new = new @ replace_scan s old new"
proof (cases old)
  case Nil
  assume "old \<noteq> []"
  with Nil show ?thesis by simp
next
  case (Cons a list)
  have "replace_scan (a # (list @ s)) (a # list) new
        = new @ replace_scan (drop (length (a # list)) (a # (list @ s))) (a # list) new"
    by (subst replace_scan.simps(2)) simp
  then show ?thesis using Cons by simp
qed


lemma no_straddling_occurrence:
  assumes "hd old \<notin> set (tl old)" and "a \<noteq> []" and "\<not> prefix old a"
  shows "\<not> prefix old (a @ old @ b)"
proof
  assume "prefix old (a @ old @ b)"
  then have "prefix old a \<or> (\<exists>us. old = a @ us \<and> prefix us (old @ b))"
    by (simp only: prefix_append)
  with assms(3) obtain us where split: "old = a @ us" and us: "prefix us (old @ b)"
    by blast
  have "us \<noteq> []"
  proof
    assume "us = []"
    with split have "old = a" by simp
    with assms(3) show False by simp
  qed
  then obtain u us' where u: "us = u # us'" by (cases us) auto
  from assms(2) obtain c cs where a: "a = c # cs" by (cases a) auto
  from split a u have old: "old = c # cs @ u # us'" by simp
  then have "old @ b = c # (cs @ u # us' @ b)" by simp
  with us u have "u = c" by (metis Cons_prefix_Cons)
  with old have "hd old \<in> set (tl old)" by simp
  with assms(1) show False by contradiction
qed

lemma replace_scan_append_occurrence:
  assumes "old \<noteq> []" and "hd old \<notin> set (tl old)"
  shows "replace_scan (a @ old @ b) old new
         = replace_scan a old new @ new @ replace_scan b old new"
  using assms
proof (induction a old new rule: replace_scan.induct)
  case (1 old new)
  have "replace_scan (old @ b) old new = new @ replace_scan b old new"
    using "1.prems"(1) by (rule replace_scan_at_occurrence)
  then show ?case by (simp only: append_Nil replace_scan.simps(1))
next
  case (2 c cs old new)
  show ?case
  proof (cases "prefix old (c # cs)")
    case True
    then obtain r where r: "c # cs = old @ r" by (auto simp: prefix_def)
    have dr: "drop (length old) (c # cs) = r" unfolding r by simp
    have "replace_scan (drop (length old) (c # cs) @ old @ b) old new
            = replace_scan (drop (length old) (c # cs)) old new @ new @ replace_scan b old new"
      using "2.IH"(1) "2.prems" True by blast
    then have ih: "replace_scan (r @ old @ b) old new
            = replace_scan r old new @ new @ replace_scan b old new"
      unfolding dr .
    have "(c # cs) @ old @ b = old @ (r @ old @ b)" unfolding r by simp
    then have "replace_scan ((c # cs) @ old @ b) old new = replace_scan (old @ (r @ old @ b)) old new"
      by (rule arg_cong)
    also have "\<dots> = new @ replace_scan (r @ old @ b) old new"
      using "2.prems"(1) by (rule replace_scan_at_occurrence)
    finally have lhs: "replace_scan ((c # cs) @ old @ b) old new
               = new @ replace_scan r old new @ new @ replace_scan b old new"
      unfolding ih .
    have "replace_scan (c # cs) old new = replace_scan (old @ r) old new"
      unfolding r ..
    also have "\<dots> = new @ replace_scan r old new"
      using "2.prems"(1) by (rule replace_scan_at_occurrence)
    finally have rhs: "replace_scan (c # cs) old new = new @ replace_scan r old new" .
    show ?thesis unfolding lhs rhs by simp
  next
    case False
    then have nf: "\<not> prefix old (c # (cs @ old @ b))"
      using no_straddling_occurrence [OF "2.prems"(2), of "c # cs" b] by simp
    have ih: "replace_scan (cs @ old @ b) old new
               = replace_scan cs old new @ new @ replace_scan b old new"
      using "2.IH"(2) "2.prems" False by blast
    have "replace_scan (c # (cs @ old @ b)) old new = c # replace_scan (cs @ old @ b) old new"
      using nf by (subst replace_scan.simps(2)) (simp only: simp_thms if_False)
    moreover have "replace_scan (c # cs) old new = c # replace_scan cs old new"
      using False by (subst replace_scan.simps(2)) (simp only: simp_thms if_False)
    ultimately show ?thesis unfolding ih by simp
  qed
qed





text \<open>
  The decoder reads an encoded string back: every character's escape is undone, and the
  scan stops at the closing quote.
\<close>

lemma hex_value_hex_digit: "d < 16 \<Longrightarrow> hex_value (hex_digit d) = Some d"
proof -
  have "\<forall>d \<in> set [0..<16]. hex_value (hex_digit d) = Some d"
    by code_simp
  moreover assume "d < 16"
  ultimately show ?thesis by simp
qed

lemma hex_number_escape:
  "hex_number [CHR ''0'', CHR ''0'', hex_digit (of_char c div 16), hex_digit (of_char c mod 16)]
   = Some (of_char c)"
proof -
  have "(of_char c :: nat) < 256" by simp
  then have "(of_char c :: nat) div 16 < 16" by presburger
  then have h1: "hex_value (hex_digit (of_char c div 16)) = Some (of_char c div 16)"
    by (rule hex_value_hex_digit)
  have h2: "hex_value (hex_digit (of_char c mod 16)) = Some (of_char c mod 16)"
    by (rule hex_value_hex_digit) simp
  have h0: "hex_value (CHR ''0'') = Some 0" by (simp add: hex_value_def)
  show ?thesis by (simp add: h0 h1 h2)
qed

lemma scanstring_escape_char: "scanstring (escape_char c @ t) = push_char c (scanstring t)"
proof -
  consider (quote) "c = CHR 0x22" | (backslash) "c = CHR 0x5C"
    | (short) "c \<in> {CHR 0x0A, CHR 0x0D, CHR 0x09, CHR 0x08, CHR 0x0C}"
    | (plain) "c \<noteq> CHR 0x22" "c \<noteq> CHR 0x5C" "(32::nat) \<le> of_char c" "of_char c \<le> (126::nat)"
    | (coded) "c \<notin> {CHR 0x22, CHR 0x5C, CHR 0x0A, CHR 0x0D, CHR 0x09, CHR 0x08, CHR 0x0C}"
              "\<not> ((32::nat) \<le> of_char c \<and> of_char c \<le> (126::nat))"
    by blast
  then show ?thesis
  proof cases
    case quote
    then show ?thesis by (simp add: escape_char_def unescape_def)
  next
    case backslash
    then show ?thesis by (simp add: escape_char_def unescape_def)
  next
    case short
    then show ?thesis by (auto simp: escape_char_def unescape_def)
  next
    case plain
    then have "escape_char c = [c]"
      by (auto simp: escape_char_def)
    with plain show ?thesis by simp
  next
    case coded
    then have "escape_char c = [CHR 0x5C, CHR ''u'', CHR ''0'', CHR ''0'',
            hex_digit (of_char c div 16), hex_digit (of_char c mod 16)]"
      by (simp add: escape_char_def)
    then show ?thesis
      by (simp add: hex_number_escape del: hex_number.simps)
  qed
qed

lemma scanstring_escaped:
  "scanstring (concat (map escape_char s) @ CHR 0x22 # rest) = Some (s, rest)"
  by (induction s) (simp_all add: scanstring_escape_char push_char_def)

text \<open>
  What the handlers find in the dictionary: the only key is \<open>pikachu\<close>, and its record
  has a display name and an attribute set.
\<close>

lemma POKEMON_DATA_pikachu: "map_of POKEMON_DATA ''pikachu'' = Some (snd (hd POKEMON_DATA))"
  by (simp add: POKEMON_DATA_def)

lemma POKEMON_DATA_lookup:
  "map_of POKEMON_DATA k = Some data \<Longrightarrow>
   k = ''pikachu'' \<and> getitem data ''name'' = Inr (JStr ''Pikachu'') \<and>
   getitem data ''stats'' = Inr (JObj [(''hp'', JInt 35), (''attack'', JInt 55),
                                      (''defense'', JInt 40), (''speed'', JInt 90)])"
  by (auto simp: POKEMON_DATA_def getitem_def split: if_splits)

lemma getitem_JObj:
  "getitem (JObj kvs) k = (case map_of kvs k of None \<Rightarrow> Inl (KeyError k) | Some v \<Rightarrow> Inr v)"
  by (simp add: getitem_def)

text \<open>
  The comprehension of \<open>list_resources\<close>, for any items: when it returns, it has built one
  descriptor per item, in order, from the item's key and from the name of its record.
\<close>

lemma resources_of_shape:
  "resources_of items = Inr rs \<Longrightarrow>
   list_all2 (\<lambda>r (pokemon_id, data).
       uri r = ''pokemon://'' @ pokemon_id \<and> getitem data ''name'' = Inr (JStr (name r)) \<and>
       mimeType r = ''application/json'' \<and> description r = ''Information about '' @ name r)
     rs items"
proof (induction items arbitrary: rs)
  case Nil
  then show ?case by simp
next
  case (Cons item items)
  obtain pokemon_id data where item: "item = (pokemon_id, data)" by (cases item)
  from Cons.prems item obtain r rs' where
    r: "make_resource pokemon_id data = Inr r" and rs': "resources_of items = Inr rs'"
    and rs: "rs = r # rs'"
    by (auto split: sum.splits)
  from r obtain n where "getitem data ''name'' = Inr (JStr n)"
    and "r = \<lparr>uri = ''pokemon://'' @ pokemon_id, name = n, mimeType = ''application/json'',
               description = ''Information about '' @ n\<rparr>"
    by (auto simp: make_resource_def split: sum.splits json.splits)
  with Cons.IH [OF rs'] item rs show ?case by simp
qed

text \<open>
  \<open>read_resource\<close> depends on its argument only through the identifier that \<open>replace\<close>
  leaves.
\<close>

lemma read_resource_pikachu:
  "map_of POKEMON_DATA ''pikachu'' = Some data \<Longrightarrow>
   read_resource ''pokemon://pikachu'' = Inr (json_dumps data 2)"
proof -
  assume d: "map_of POKEMON_DATA ''pikachu'' = Some data"
  have "replace ''pokemon://pikachu'' ''pokemon://'' [] = ''pikachu''" by code_simp
  with d show ?thesis by (simp add: read_resource_def contains_def)
qed

lemma read_resource_by_key:
  "read_resource uri_str =
     (if replace uri_str ''pokemon://'' [] = ''pikachu'' then read_resource ''pokemon://pikachu''
      else Inl (ValueError (''Unknown Pokemon: '' @ replace uri_str ''pokemon://'' [])))"
proof (cases "replace uri_str ''pokemon://'' [] = ''pikachu''")
  case True
  then have "read_resource uri_str = Inr (json_dumps (snd (hd POKEMON_DATA)) 2)"
    by (simp add: read_resource_def contains_POKEMON_DATA POKEMON_DATA_pikachu)
  with True show ?thesis
    by (simp add: read_resource_pikachu [OF POKEMON_DATA_pikachu])
next
  case False
  then show ?thesis
    by (simp add: read_resource_def contains_POKEMON_DATA Let_def)
qed

lemma read_resource_pikachu_succeeds: "\<not> isl (read_resource ''pokemon://pikachu'')"
  by (simp add: read_resource_pikachu [OF POKEMON_DATA_pikachu])

lemma replace_scheme_prefix:
  "replace (''pokemon://'' @ s) ''pokemon://'' [] = replace s ''pokemon://'' []"
proof -
  have "replace_scan (''pokemon://'' @ s) ''pokemon://'' [] = [] @ replace_scan s ''pokemon://'' []"
    by (rule replace_scan_at_occurrence) simp
  then show ?thesis by (simp add: replace_def)
qed

lemma replace_no_occurrence:
  "\<not> sublist ''pokemon://'' s \<Longrightarrow> replace s ''pokemon://'' [] = s"
  by (simp add: replace_def replace_scan_no_occurrence)

lemma sublist_length_le: "sublist xs ys \<Longrightarrow> length xs \<le> length ys"
  by (auto simp: sublist_def)

text \<open>
  Deleting an occurrence makes the string shorter. So an identifier that contains
  \<open>pokemon://\<close> is never the one that \<open>read_resource\<close> reports for its URI: the
  message carries the identifier only if the identifier is free of the marker.
\<close>

lemma length_replace_scan_delete: "length (replace_scan s old []) \<le> length s"
proof (induction s old "[] :: string" rule: replace_scan.induct)
  case (1 old)
  show ?case by simp
next
  case (2 c cs old)
  show ?case
  proof (cases "old \<noteq> [] \<and> prefix old (c # cs)")
    case True
    then have "replace_scan (c # cs) old [] = replace_scan (drop (length old) (c # cs)) old []"
      by (subst replace_scan.simps(2)) simp
    moreover have "length (replace_scan (drop (length old) (c # cs)) old [])
        \<le> length (drop (length old) (c # cs))"
      using "2.hyps"(1) True by blast
    ultimately show ?thesis by simp
  next
    case False
    have "replace_scan (c # cs) old [] = c # replace_scan cs old []"
      by (subst replace_scan.simps(2)) (simp only: False if_False)
    moreover have "length (replace_scan cs old []) \<le> length cs"
      using "2.hyps"(2) False by blast
    ultimately show ?thesis by simp
  qed
qed

lemma replace_occurrence_shrinks:
  assumes "sublist ''pokemon://'' s"
  shows "replace s ''pokemon://'' [] \<noteq> s"
proof -
  from assms obtain a b where s: "s = a @ ''pokemon://'' @ b"
    by (auto simp: sublist_def)
  have "replace_scan (a @ ''pokemon://'' @ b) ''pokemon://'' []
        = replace_scan a ''pokemon://'' [] @ [] @ replace_scan b ''pokemon://'' []"
    by (rule replace_scan_append_occurrence) simp_all
  then have "length (replace_scan s ''pokemon://'' [])
        = length (replace_scan a ''pokemon://'' []) + length (replace_scan b ''pokemon://'' [])"
    unfolding s by simp
  also have "\<dots> \<le> length a + length b"
    using length_replace_scan_delete [of a "''pokemon://''"]
      length_replace_scan_delete [of b "''pokemon://''"] by linarith
  also have "\<dots> < length s" unfolding s by simp
  finally have "length (replace s ''pokemon://'' []) < length s"
    by (simp add: replace_def)
  then show ?thesis by auto
qed

lemma reported_identifier_is_marker_free:
  assumes "read_resource (''pokemon://'' @ ident) = Inl (ValueError (''Unknown Pokemon: '' @ ident))"
  shows "\<not> sublist ''pokemon://'' ident"
proof
  assume "sublist ''pokemon://'' ident"
  then have ne: "replace ident ''pokemon://'' [] \<noteq> ident"
    by (rule replace_occurrence_shrinks)
  have key: "replace (''pokemon://'' @ ident) ''pokemon://'' [] = replace ident ''pokemon://'' []"
    by (rule replace_scheme_prefix)
  note by_key = read_resource_by_key [of "''pokemon://'' @ ident", unfolded key]
  show False
  proof (cases "replace ident ''pokemon://'' [] = ''pikachu''")
    case True
    with by_key have "read_resource (''pokemon://'' @ ident) = read_resource ''pokemon://pikachu''"
      by simp
    with assms have "isl (read_resource ''pokemon://pikachu'')" by (metis sum.disc(1))
    with read_resource_pikachu_succeeds show False by contradiction
  next
    case False
    with by_key have "read_resource (''pokemon://'' @ ident)
        = Inl (ValueError (''Unknown Pokemon: '' @ replace ident ''pokemon://'' []))"
      by simp
    with assms have "replace ident ''pokemon://'' [] = ident" by simp
    with ne show False by contradiction
  qed
qed

text \<open>
  \<open>call_tool\<close> with the operation \<open>get_stats\<close> and a string under \<open>pokemon\<close> depends on the
  argument only through its lower case.
\<close>

lemma call_tool_get_stats:
  "map_of kvs ''pokemon'' = Some (JStr a) \<Longrightarrow>
   call_tool ''get_stats'' (JObj kvs) =
     (if lower a = ''pikachu''
      then Inr [\<lparr>type = ''text'',
                 text = json_dumps (JObj [(''name'', JStr ''Pikachu''),
                   (''stats'', JObj [(''hp'', JInt 35), (''attack'', JInt 55),
                                     (''defense'', JInt 40), (''speed'', JInt 90)])]) 2\<rparr>]
      else Inr [\<lparr>type = ''text'',
                 text = json_dumps
                   (JObj [(''error'', JStr (''Pokemon '' @ lower a @ '' not found''))]) 2\<rparr>])"
proof (cases "lower a = ''pikachu''")
  case True
  assume arg: "map_of kvs ''pokemon'' = Some (JStr a)"
  define data where "data = snd (hd POKEMON_DATA)"
  have d: "map_of POKEMON_DATA ''pikachu'' = Some data"
    unfolding data_def by (rule POKEMON_DATA_pikachu)
  from POKEMON_DATA_lookup [OF d]
  have n: "getitem data ''name'' = Inr (JStr ''Pikachu'')"
    and st: "getitem data ''stats'' = Inr (JObj [(''hp'', JInt 35), (''attack'', JInt 55),
                                      (''defense'', JInt 40), (''speed'', JInt 90)])"
    by simp_all
  from True arg d n st show ?thesis
    by (simp add: call_tool_def getitem_JObj lower_method_def contains_POKEMON_DATA)
next
  case False
  moreover assume "map_of kvs ''pokemon'' = Some (JStr a)"
  ultimately show ?thesis
    by (simp add: call_tool_def getitem_JObj lower_method_def contains_POKEMON_DATA)
qed

text \<open>The payloads as text, and read back by the decoder.\<close>

lemma stats_payload_text:
  \<open>json_dumps (JObj [(''name'', JStr ''Pikachu''),
       (''stats'', JObj [(''hp'', JInt 35), (''attack'', JInt 55),
                         (''defense'', JInt 40), (''speed'', JInt 90)])]) 2
   = join [CHR 0x0A]
       [''{'',
        ''  "name": "Pikachu",'',
        ''  "stats": {'',
        ''    "hp": 35,'',
        ''    "attack": 55,'',
        ''    "defense": 40,'',
        ''    "speed": 90'',
        ''  }'',
        ''}'']\<close>
  by code_simp

lemma stats_payload_decodes:
  "json_loads (json_dumps (JObj [(''name'', JStr ''Pikachu''),
       (''stats'', JObj [(''hp'', JInt 35), (''attack'', JInt 55),
                         (''defense'', JInt 40), (''speed'', JInt 90)])]) 2)
   = Some (JObj [(''name'', JStr ''Pikachu''),
       (''stats'', JObj [(''hp'', JInt 35), (''attack'', JInt 55),
                         (''defense'', JInt 40), (''speed'', JInt 90)])])"
  by code_simp

lemma missingno_payload_text:
  \<open>json_dumps (JObj [(''error'', JStr ''Pokemon missingno not found'')]) 2
   = join [CHR 0x0A] [''{'', ''  "error": "Pokemon missingno not found"'', ''}'']\<close>
  by code_simp

lemma json_loads_single_string_member:
  "json_loads (json_dumps (JObj [(k, JStr m)]) 2) = Some (JObj [(k, JStr m)])"
proof -
  define t where "t = json_dumps (JObj [(k, JStr m)]) 2"
  have shape: "t = CHR ''{'' # CHR 0x0A # CHR '' '' # CHR '' '' # CHR 0x22 #
      (concat (map escape_char k) @ CHR 0x22 # CHR '':'' # CHR '' '' # CHR 0x22 #
         (concat (map escape_char m) @ CHR 0x22 # [CHR 0x0A, CHR ''}'']))"
    by (simp add: t_def json_dumps_def newline_indent_def encode_basestring_ascii_def
        numeral_2_eq_2)
  then have "length t = Suc (Suc (Suc (length (concat (map escape_char k))
       + length (concat (map escape_char m)) + 9)))"
    by simp
  then obtain n where fuel: "length t = Suc (Suc (Suc n))" by blast
  have "scan_once (Suc (Suc (Suc n))) (skip_ws t) = Some (JObj [(k, JStr m)], [])"
    unfolding shape
    by (simp add: skip_ws_def is_ws_def scanstring_escaped)
  then show ?thesis
    unfolding t_def [symmetric] by (simp add: json_loads_def fuel skip_ws_def)
qed

lemma json_loads_record:
  "map_of POKEMON_DATA ''pikachu'' = Some data \<Longrightarrow> json_loads (json_dumps data 2) = Some data"
proof -
  assume "map_of POKEMON_DATA ''pikachu'' = Some data"
  then have d: "data = snd (hd POKEMON_DATA)" by (simp add: POKEMON_DATA_def)
  have "json_loads (json_dumps (snd (hd POKEMON_DATA)) 2) = Some (snd (hd POKEMON_DATA))"
    by code_simp
  with d show ?thesis by simp
qed

lemma lower_Pikachu: "lower ''Pikachu'' = ''pikachu''"
  by code_simp

lemma lower_missingno: "lower ''missingno'' = ''missingno''"
  by code_simp

lemma equal_up_to_case_Pikachu: "equal_up_to_case ''Pikachu'' ''pikachu''"
  by code_simp

section \<open>The claims\<close>

text \<open>
  C1. The two handlers treat an unknown record differently. \<open>call_tool("get_stats", arguments)\<close>
  whose \<open>pokemon\<close> argument, lower-cased, is not a key of \<open>POKEMON_DATA\<close> returns normally:
  one \<open>TextContent\<close> of type \<open>text\<close> whose text is the JSON object
  \<open>{"error": "Pokemon <name> not found"}\<close>, \<open><name>\<close> being the lower-cased argument, and
  the decoder reads that object back from the text. \<open>read_resource\<close> on a URI whose
  identifier (the \<open>pokemon_id\<close> it extracts) is not a key raises \<open>ValueError\<close>. In
  particular \<open>call_tool("get_stats", {"pokemon": "missingno"})\<close> returns the payload
  \<open>{"error": "Pokemon missingno not found"}\<close>.
\<close>

theorem soft_failure_asymmetry:
  \<open>(map_of kvs ''pokemon'' = Some (JStr a) \<longrightarrow> \<not> contains POKEMON_DATA (lower a) \<longrightarrow>
      call_tool ''get_stats'' (JObj kvs)
        = Inr [\<lparr>type = ''text'',
                 text = json_dumps
                   (JObj [(''error'', JStr (''Pokemon '' @ lower a @ '' not found''))]) 2\<rparr>] \<and>
      json_loads (json_dumps
                   (JObj [(''error'', JStr (''Pokemon '' @ lower a @ '' not found''))]) 2)
        = Some (JObj [(''error'', JStr (''Pokemon '' @ lower a @ '' not found''))])) \<and>
   (\<not> contains POKEMON_DATA (replace uri_str ''pokemon://'' []) \<longrightarrow>
      read_resource uri_str
        = Inl (ValueError (''Unknown Pokemon: '' @ replace uri_str ''pokemon://'' []))) \<and>
   call_tool ''get_stats'' (JObj [(''pokemon'', JStr ''missingno'')])
     = Inr [\<lparr>type = ''text'',
              text = join [CHR 0x0A]
                [''{'', ''  "error": "Pokemon missingno not found"'', ''}'']\<rparr>]\<close>
proof (intro conjI impI)
  assume arg: "map_of kvs ''pokemon'' = Some (JStr a)"
    and absent: "\<not> contains POKEMON_DATA (lower a)"
  from absent have "lower a \<noteq> ''pikachu''" by (simp add: contains_POKEMON_DATA)
  with call_tool_get_stats [OF arg]
  show "call_tool ''get_stats'' (JObj kvs)
        = Inr [\<lparr>type = ''text'',
                 text = json_dumps
                   (JObj [(''error'', JStr (''Pokemon '' @ lower a @ '' not found''))]) 2\<rparr>]"
    by simp
next
  show "json_loads (json_dumps
                   (JObj [(''error'', JStr (''Pokemon '' @ lower a @ '' not found''))]) 2)
        = Some (JObj [(''error'', JStr (''Pokemon '' @ lower a @ '' not found''))])"
    by (rule json_loads_single_string_member)
next
  assume "\<not> contains POKEMON_DATA (replace uri_str ''pokemon://'' [])"
  then show "read_resource uri_str
        = Inl (ValueError (''Unknown Pokemon: '' @ replace uri_str ''pokemon://'' []))"
    by (simp add: read_resource_def)
next
  have "map_of [(''pokemon'', JStr ''missingno'')] ''pokemon'' = Some (JStr ''missingno'')"
    by simp
  from call_tool_get_stats [OF this]
  show "call_tool ''get_stats'' (JObj [(''pokemon'', JStr ''missingno'')])
     = Inr [\<lparr>type = ''text'',
              text = join [CHR 0x0A]
                [''{'', ''  \"error\": \"Pokemon missingno not found\"'', ''}'']\<rparr>]"
    by (simp add: lower_missingno missingno_payload_text del: join.simps)
qed

text \<open>An instance: the argument \<open>MissingNo\<close> and the URI \<open>pokemon://missingno\<close>.\<close>

theorem soft_failure_asymmetry_witness:
  "map_of [(''pokemon'', JStr ''MissingNo'')] ''pokemon'' = Some (JStr ''MissingNo'') \<and>
   \<not> contains POKEMON_DATA (lower ''MissingNo'') \<and>
   call_tool ''get_stats'' (JObj [(''pokemon'', JStr ''MissingNo'')])
     = Inr [\<lparr>type = ''text'',
              text = json_dumps (JObj [(''error'', JStr ''Pokemon missingno not found'')]) 2\<rparr>] \<and>
   json_loads (json_dumps (JObj [(''error'', JStr ''Pokemon missingno not found'')]) 2)
     = Some (JObj [(''error'', JStr ''Pokemon missingno not found'')]) \<and>
   \<not> contains POKEMON_DATA (replace ''pokemon://missingno'' ''pokemon://'' []) \<and>
   read_resource ''pokemon://missingno'' = Inl (ValueError ''Unknown Pokemon: missingno'')"
proof -
  have l: "lower ''MissingNo'' = ''missingno''" by code_simp
  have r: "replace ''pokemon://missingno'' ''pokemon://'' [] = ''missingno''" by code_simp
  have arg: "map_of [(''pokemon'', JStr ''MissingNo'')] ''pokemon'' = Some (JStr ''MissingNo'')"
    by simp
  have absent: "\<not> contains POKEMON_DATA (lower ''MissingNo'')"
    by (simp add: l contains_POKEMON_DATA)
  have absent': "\<not> contains POKEMON_DATA (replace ''pokemon://missingno'' ''pokemon://'' [])"
    by (simp add: r contains_POKEMON_DATA)
  from soft_failure_asymmetry
    [of "[(''pokemon'', JStr ''MissingNo'')]" "''MissingNo''" "''pokemon://missingno''"]
    arg absent absent'
  show ?thesis by (simp add: l r)
qed

text \<open>
  C2, as amended. The lookup of \<open>read_resource\<close> is exact, not case-insensitive: for a key
  \<open>k\<close> of \<open>POKEMON_DATA\<close> and a string \<open>s\<close> that equals \<open>k\<close> up to letter case,
  \<open>read_resource("pokemon://" + s)\<close> returns the record of \<open>k\<close> when \<open>s\<close> is \<open>k\<close> itself, and
  otherwise raises \<open>ValueError("Unknown Pokemon: " + s)\<close>.
\<close>

theorem read_resource_exact_match:
  "map_of POKEMON_DATA k = Some data \<Longrightarrow> equal_up_to_case s k \<Longrightarrow>
   read_resource (''pokemon://'' @ s)
     = (if s = k then Inr (json_dumps data 2)
        else Inl (ValueError (''Unknown Pokemon: '' @ s)))"
proof -
  assume d: "map_of POKEMON_DATA k = Some data" and eq: "equal_up_to_case s k"
  from POKEMON_DATA_lookup [OF d] have k: "k = ''pikachu''" by simp
  from eq have "length s = length k"
    unfolding equal_up_to_case_def by (rule list_all2_lengthD)
  with k have "length s < length ''pokemon://''" by simp
  then have "\<not> sublist ''pokemon://'' s"
    using sublist_length_le [of "''pokemon://''" s] by auto
  then have key: "replace (''pokemon://'' @ s) ''pokemon://'' [] = s"
    using replace_scheme_prefix [of s] replace_no_occurrence [of s] by simp
  from d k have d': "map_of POKEMON_DATA ''pikachu'' = Some data" by simp
  show ?thesis
    using read_resource_by_key [of "''pokemon://'' @ s"] key k read_resource_pikachu [OF d']
    by simp
qed

text \<open>An instance: \<open>Pikachu\<close> against the key \<open>pikachu\<close>.\<close>

theorem read_resource_exact_match_witness:
  "map_of POKEMON_DATA ''pikachu'' = Some (snd (hd POKEMON_DATA)) \<and>
   equal_up_to_case ''Pikachu'' ''pikachu'' \<and>
   read_resource (''pokemon://'' @ ''Pikachu'') = Inl (ValueError ''Unknown Pokemon: Pikachu'')"
proof -
  from read_resource_exact_match [OF POKEMON_DATA_pikachu equal_up_to_case_Pikachu]
  have "read_resource (''pokemon://'' @ ''Pikachu'') = Inl (ValueError ''Unknown Pokemon: Pikachu'')"
    by simp
  with POKEMON_DATA_pikachu equal_up_to_case_Pikachu show ?thesis by blast
qed

text \<open>
  C2 as it was stated fails: \<open>Pikachu\<close> equals the key \<open>pikachu\<close> up to letter case, yet
  \<open>read_resource("pokemon://Pikachu")\<close> raises while \<open>read_resource("pokemon://pikachu")\<close>
  returns the record.
\<close>

theorem read_resource_case_counterexample:
  "contains POKEMON_DATA ''pikachu'' \<and> equal_up_to_case ''Pikachu'' ''pikachu'' \<and>
   read_resource (''pokemon://'' @ ''Pikachu'') = Inl (ValueError ''Unknown Pokemon: Pikachu'') \<and>
   \<not> isl (read_resource (''pokemon://'' @ ''pikachu'')) \<and>
   read_resource (''pokemon://'' @ ''Pikachu'') \<noteq> read_resource (''pokemon://'' @ ''pikachu'')"
proof -
  have k: "replace (''pokemon://'' @ ''Pikachu'') ''pokemon://'' [] = ''Pikachu''" by code_simp
  have miss: "read_resource (''pokemon://'' @ ''Pikachu'') = Inl (ValueError ''Unknown Pokemon: Pikachu'')"
    using read_resource_by_key [of "''pokemon://'' @ ''Pikachu''"] k by simp
  have hit: "\<not> isl (read_resource (''pokemon://'' @ ''pikachu''))"
    using read_resource_pikachu_succeeds by simp
  from miss hit have "read_resource (''pokemon://'' @ ''Pikachu'') \<noteq> read_resource (''pokemon://'' @ ''pikachu'')"
    by (metis sum.disc(1))
  with miss hit equal_up_to_case_Pikachu show ?thesis
    by (simp add: contains_POKEMON_DATA)
qed




text \<open>
  C4. \<open>call_tool("get_stats", {"pokemon": "Pikachu"})\<close> returns one \<open>TextContent\<close> of type
  \<open>text\<close> whose text is the indented JSON shown below, and the decoder reads from it
  exactly \<open>{"name": "Pikachu", "stats": {"hp": 35, "attack": 55, "defense": 40, "speed": 90}}\<close>.
  More generally, whenever the lower-cased argument is a key of \<open>POKEMON_DATA\<close>, the payload
  is the encoding of \<open>{"name": n, "stats": st}\<close> with \<open>n\<close> and \<open>st\<close> the \<open>name\<close> and the
  \<open>stats\<close> of the stored record.
\<close>

theorem get_stats_payload:
  \<open>(map_of kvs ''pokemon'' = Some (JStr a) \<longrightarrow> map_of POKEMON_DATA (lower a) = Some data \<longrightarrow>
      (\<exists>n st. getitem data ''name'' = Inr n \<and> getitem data ''stats'' = Inr st \<and>
         call_tool ''get_stats'' (JObj kvs)
           = Inr [\<lparr>type = ''text'',
                    text = json_dumps (JObj [(''name'', n), (''stats'', st)]) 2\<rparr>])) \<and>
   call_tool ''get_stats'' (JObj [(''pokemon'', JStr ''Pikachu'')])
     = Inr [\<lparr>type = ''text'',
              text = join [CHR 0x0A]
                [''{'',
                 ''  "name": "Pikachu",'',
                 ''  "stats": {'',
                 ''    "hp": 35,'',
                 ''    "attack": 55,'',
                 ''    "defense": 40,'',
                 ''    "speed": 90'',
                 ''  }'',
                 ''}'']\<rparr>] \<and>
   json_loads (join [CHR 0x0A]
                [''{'',
                 ''  "name": "Pikachu",'',
                 ''  "stats": {'',
                 ''    "hp": 35,'',
                 ''    "attack": 55,'',
                 ''    "defense": 40,'',
                 ''    "speed": 90'',
                 ''  }'',
                 ''}''])
     = Some (JObj [(''name'', JStr ''Pikachu''),
          (''stats'', JObj [(''hp'', JInt 35), (''attack'', JInt 55),
                            (''defense'', JInt 40), (''speed'', JInt 90)])])\<close>
proof (intro conjI impI)
  assume arg: "map_of kvs ''pokemon'' = Some (JStr a)"
    and rec: "map_of POKEMON_DATA (lower a) = Some data"
  from POKEMON_DATA_lookup [OF rec] have k: "lower a = ''pikachu''"
    and n: "getitem data ''name'' = Inr (JStr ''Pikachu'')"
    and st: "getitem data ''stats'' = Inr (JObj [(''hp'', JInt 35), (''attack'', JInt 55),
                                      (''defense'', JInt 40), (''speed'', JInt 90)])"
    by simp_all
  from call_tool_get_stats [OF arg] k n st
  show "\<exists>n st. getitem data ''name'' = Inr n \<and> getitem data ''stats'' = Inr st \<and>
         call_tool ''get_stats'' (JObj kvs)
           = Inr [\<lparr>type = ''text'',
                    text = json_dumps (JObj [(''name'', n), (''stats'', st)]) 2\<rparr>]"
    by simp
next
  have "map_of [(''pokemon'', JStr ''Pikachu'')] ''pokemon'' = Some (JStr ''Pikachu'')"
    by simp
  from call_tool_get_stats [OF this]
  show "call_tool ''get_stats'' (JObj [(''pokemon'', JStr ''Pikachu'')])
     = Inr [\<lparr>type = ''text'',
              text = join [CHR 0x0A]
                [''{'',
                 ''  \"name\": \"Pikachu\",'',
                 ''  \"stats\": {'',
                 ''    \"hp\": 35,'',
                 ''    \"attack\": 55,'',
                 ''    \"defense\": 40,'',
                 ''    \"speed\": 90'',
                 ''  }'',
                 ''}'']\<rparr>]"
    by (simp only: lower_Pikachu if_True simp_thms stats_payload_text)
next
  from stats_payload_decodes
  show "json_loads (join [CHR 0x0A]
                [''{'',
                 ''  \"name\": \"Pikachu\",'',
                 ''  \"stats\": {'',
                 ''    \"hp\": 35,'',
                 ''    \"attack\": 55,'',
                 ''    \"defense\": 40,'',
                 ''    \"speed\": 90'',
                 ''  }'',
                 ''}''])
     = Some (JObj [(''name'', JStr ''Pikachu''),
          (''stats'', JObj [(''hp'', JInt 35), (''attack'', JInt 55),
                            (''defense'', JInt 40), (''speed'', JInt 90)])])"
    by (simp only: stats_payload_text)
qed

text \<open>An instance of the general part: the argument \<open>Pikachu\<close>.\<close>

theorem get_stats_payload_witness:
  "map_of [(''pokemon'', JStr ''Pikachu'')] ''pokemon'' = Some (JStr ''Pikachu'') \<and>
   map_of POKEMON_DATA (lower ''Pikachu'') = Some (snd (hd POKEMON_DATA)) \<and>
   (\<exists>n st. getitem (snd (hd POKEMON_DATA)) ''name'' = Inr n \<and>
      getitem (snd (hd POKEMON_DATA)) ''stats'' = Inr st \<and>
      call_tool ''get_stats'' (JObj [(''pokemon'', JStr ''Pikachu'')])
        = Inr [\<lparr>type = ''text'',
                 text = json_dumps (JObj [(''name'', n), (''stats'', st)]) 2\<rparr>])"
proof -
  have arg: "map_of [(''pokemon'', JStr ''Pikachu'')] ''pokemon'' = Some (JStr ''Pikachu'')"
    by simp
  have rec: "map_of POKEMON_DATA (lower ''Pikachu'') = Some (snd (hd POKEMON_DATA))"
    by (simp only: lower_Pikachu POKEMON_DATA_pikachu)
  from get_stats_payload [of "[(''pokemon'', JStr ''Pikachu'')]" "''Pikachu''" "snd (hd POKEMON_DATA)"]
  have "\<exists>n st. getitem (snd (hd POKEMON_DATA)) ''name'' = Inr n \<and>
      getitem (snd (hd POKEMON_DATA)) ''stats'' = Inr st \<and>
      call_tool ''get_stats'' (JObj [(''pokemon'', JStr ''Pikachu'')])
        = Inr [\<lparr>type = ''text'',
                 text = json_dumps (JObj [(''name'', n), (''stats'', st)]) 2\<rparr>]"
    using arg rec by blast
  with arg rec show ?thesis by blast
qed

text \<open>
  C5. For every operation name other than \<open>get_stats\<close> and every value of \<open>arguments\<close>,
  \<open>call_tool\<close> raises \<open>ValueError("Unknown tool: " + name)\<close>: the error is propagated and its
  message carries the operation name. In particular \<open>call_tool("bogus_tool", {})\<close> raises
  \<open>ValueError("Unknown tool: bogus_tool")\<close>.
\<close>

theorem call_tool_unknown_operation:
  "tool_name \<noteq> ''get_stats'' \<Longrightarrow>
   call_tool tool_name arguments = Inl (ValueError (''Unknown tool: '' @ tool_name))"
  by (simp add: call_tool_def)

theorem call_tool_unknown_operation_witness:
  "''bogus_tool'' \<noteq> ''get_stats'' \<and>
   call_tool ''bogus_tool'' (JObj []) = Inl (ValueError ''Unknown tool: bogus_tool'')"
  using call_tool_unknown_operation [of "''bogus_tool''" "JObj []"] by simp



text \<open>
  C7. For every key \<open>k\<close> of \<open>POKEMON_DATA\<close> with record \<open>data\<close>,
  \<open>read_resource("pokemon://" + k)\<close> returns \<open>json.dumps(data, indent=2)\<close>; the decoder reads
  the whole record back from that text, and the \<open>name\<close> of what it reads is the stored
  display name.
\<close>

theorem read_resource_present:
  "map_of POKEMON_DATA k = Some data \<Longrightarrow>
   read_resource (''pokemon://'' @ k) = Inr (json_dumps data 2) \<and>
   json_loads (json_dumps data 2) = Some data \<and>
   (\<exists>v n. json_loads (json_dumps data 2) = Some v \<and> getitem v ''name'' = Inr (JStr n) \<and>
          getitem data ''name'' = Inr (JStr n))"
proof -
  assume d: "map_of POKEMON_DATA k = Some data"
  from POKEMON_DATA_lookup [OF d] have k: "k = ''pikachu''"
    and n: "getitem data ''name'' = Inr (JStr ''Pikachu'')" by simp_all
  from d k have d': "map_of POKEMON_DATA ''pikachu'' = Some data" by simp
  have "read_resource (''pokemon://'' @ k) = Inr (json_dumps data 2)"
    using read_resource_pikachu [OF d'] k by simp
  moreover note json_loads_record [OF d']
  ultimately show ?thesis using n by simp
qed

text \<open>An instance: the key \<open>pikachu\<close>.\<close>

theorem read_resource_present_witness:
  "map_of POKEMON_DATA ''pikachu'' = Some (snd (hd POKEMON_DATA)) \<and>
   read_resource (''pokemon://'' @ ''pikachu'') = Inr (json_dumps (snd (hd POKEMON_DATA)) 2) \<and>
   json_loads (json_dumps (snd (hd POKEMON_DATA)) 2) = Some (snd (hd POKEMON_DATA)) \<and>
   getitem (snd (hd POKEMON_DATA)) ''name'' = Inr (JStr ''Pikachu'')"
proof -
  have h: "map_of POKEMON_DATA ''pikachu'' = Some (snd (hd POKEMON_DATA))"
    by (simp add: POKEMON_DATA_def)
  have g: "getitem (snd (hd POKEMON_DATA)) ''name'' = Inr (JStr ''Pikachu'')"
    by (simp add: POKEMON_DATA_def getitem_def)
  from read_resource_present [OF h] h g show ?thesis by simp
qed

text \<open>
  C8. \<open>list_resources\<close> takes no input and returns, without raising, one descriptor per
  item of \<open>POKEMON_DATA\<close>, in order: its URI is \<open>pokemon://\<close> followed by the key, its name
  is the record's display name, its mimeType is \<open>application/json\<close> and its description
  is \<open>Information about\<close> followed by the name. The result is a constant of the program:
  it depends on no input and no handler assigns to \<open>POKEMON_DATA\<close>, so every call
  returns this same list.
\<close>

theorem list_resources_one_per_entry:
  "list_resources = Inr [\<lparr>uri = ''pokemon://pikachu'', name = ''Pikachu'',
                           mimeType = ''application/json'',
                           description = ''Information about Pikachu''\<rparr>] \<and>
   (\<exists>rs. list_resources = Inr rs \<and> length rs = length POKEMON_DATA \<and>
      list_all2 (\<lambda>r (pokemon_id, data).
          uri r = ''pokemon://'' @ pokemon_id \<and> getitem data ''name'' = Inr (JStr (name r)) \<and>
          mimeType r = ''application/json'' \<and> description r = ''Information about '' @ name r)
        rs POKEMON_DATA)"
proof -
  have v: "list_resources = Inr [\<lparr>uri = ''pokemon://pikachu'', name = ''Pikachu'',
                           mimeType = ''application/json'',
                           description = ''Information about Pikachu''\<rparr>]"
    by (simp add: list_resources_def POKEMON_DATA_def make_resource_def getitem_def)
  then have "resources_of POKEMON_DATA = Inr [\<lparr>uri = ''pokemon://pikachu'', name = ''Pikachu'',
                           mimeType = ''application/json'',
                           description = ''Information about Pikachu''\<rparr>]"
    by (simp add: list_resources_def)
  from resources_of_shape [OF this] v show ?thesis
    by (auto dest: list_all2_lengthD)
qed

text \<open>
  C9. \<open>read_resource\<close> removes every occurrence of \<open>pokemon://\<close> from the URI string, not
  only a leading one: the identifier it looks up for \<open>a + "pokemon://" + b\<close> is what is
  left of \<open>a\<close> followed by what is left of \<open>b\<close>, wherever the occurrence is. So
  \<open>pokemon://pokemon://pikachu\<close> is looked up under \<open>pikachu\<close> and reads the record.
\<close>

theorem read_resource_removes_every_occurrence:
  "replace (a @ ''pokemon://'' @ b) ''pokemon://'' []
     = replace a ''pokemon://'' [] @ replace b ''pokemon://'' [] \<and>
   read_resource (a @ ''pokemon://'' @ b)
     = (if replace a ''pokemon://'' [] @ replace b ''pokemon://'' [] = ''pikachu''
        then read_resource ''pokemon://pikachu''
        else Inl (ValueError (''Unknown Pokemon: ''
                    @ replace a ''pokemon://'' [] @ replace b ''pokemon://'' []))) \<and>
   read_resource ''pokemon://pokemon://pikachu'' = read_resource ''pokemon://pikachu'' \<and>
   \<not> isl (read_resource ''pokemon://pikachu'')"
proof -
  have "replace_scan (a @ ''pokemon://'' @ b) ''pokemon://'' []
        = replace_scan a ''pokemon://'' [] @ [] @ replace_scan b ''pokemon://'' []"
    by (rule replace_scan_append_occurrence) simp_all
  then have split: "replace (a @ ''pokemon://'' @ b) ''pokemon://'' []
     = replace a ''pokemon://'' [] @ replace b ''pokemon://'' []"
    by (simp add: replace_def)
  have "replace ''pokemon://pokemon://pikachu'' ''pokemon://'' [] = ''pikachu''" by code_simp
  then have twice: "read_resource ''pokemon://pokemon://pikachu'' = read_resource ''pokemon://pikachu''"
    using read_resource_by_key [of "''pokemon://pokemon://pikachu''"] by simp
  show ?thesis
    using split twice read_resource_pikachu_succeeds
      read_resource_by_key [of "a @ ''pokemon://'' @ b"]
    by simp
qed

text \<open>
  C10. With the operation \<open>get_stats\<close> and an argument dictionary that has no key
  \<open>pokemon\<close>, \<open>call_tool\<close> raises \<open>KeyError("pokemon")\<close>: the subscript is evaluated
  first and unconditionally, so the failure is propagated and no soft-failure payload is
  returned.
\<close>

theorem call_tool_missing_key:
  "map_of kvs ''pokemon'' = None \<Longrightarrow>
   call_tool ''get_stats'' (JObj kvs) = Inl (KeyError ''pokemon'')"
  by (simp add: call_tool_def getitem_def)

theorem call_tool_missing_key_witness:
  "map_of [(''name'', JStr ''pikachu'')] ''pokemon'' = None \<and>
   call_tool ''get_stats'' (JObj [(''name'', JStr ''pikachu'')]) = Inl (KeyError ''pokemon'')"
  using call_tool_missing_key [of "[(''name'', JStr ''pikachu'')]"] by simp

end
